theory Spec2Isabelle
  imports Complex_Main
begin

section \<open>Values of the program\<close>

text \<open>
  The program is \<^verbatim>\<open>src/index.js\<close>: a class \<^verbatim>\<open>SashiDoTeachableMachine\<close> with the
  methods \<^verbatim>\<open>loadModel\<close>, \<^verbatim>\<open>checkModel\<close>, \<^verbatim>\<open>classify\<close> and \<^verbatim>\<open>inference\<close>, and the
  free functions \<^verbatim>\<open>retryOperation\<close>, \<^verbatim>\<open>bufferToStream\<close>, \<^verbatim>\<open>predict\<close> and
  \<^verbatim>\<open>getTopKClasses\<close>.

  A promise is modelled by what it settles to: \<open>Inl v\<close> is a rejection with the
  JavaScript value \<open>v\<close>, \<open>Inr x\<close> a fulfilment with \<open>x\<close>. The values the program
  rejects with are strings, \<^verbatim>\<open>Error\<close> objects thrown by a collaborator (kept by their
  message) and object literals \<^verbatim>\<open>{ error: v }\<close>.
\<close>

datatype js_value =
    JString string
  | JError string
  | JErrorObject js_value


text \<open>
  The object literal \<^verbatim>\<open>{ message: m }\<close> that \<^verbatim>\<open>checkModel\<close> rejects with, and the
  field that the handler \<^verbatim>\<open>({ message }) => ...\<close> of \<^verbatim>\<open>retryOperation\<close> takes out of it.
\<close>

datatype message_object = MessageObject string

fun message :: "message_object \<Rightarrow> string" where
  "message (MessageObject m) = m"

text \<open>
  What a call does besides returning is recorded as a list of events, oldest first:
  every call of the retried operation, every \<^verbatim>\<open>wait(ms)\<close>, every file or network
  access, every call of an image codec and the call of \<^verbatim>\<open>predict\<close>, with a flag that
  says whether its first argument is a bitmap (\<open>False\<close>: it is \<^verbatim>\<open>undefined\<close>).
  Console output is not recorded.
\<close>

datatype event =
    Attempt
  | Wait nat
  | Stat string
  | ReadFile string
  | Fetch string
  | DecodePNG
  | DecodeJPEG
  | Predict bool

type_synonym 'a run = "event list \<times> (js_value + 'a)"

definition after :: "event list \<Rightarrow> 'a run \<Rightarrow> 'a run" where
  "after evs r = (evs @ fst r, snd r)"

definition waits :: "event list \<Rightarrow> nat list" where
  "waits tr = concat (map (\<lambda>e. case e of Wait d \<Rightarrow> [d] | _ \<Rightarrow> []) tr)"

definition attempts :: "event list \<Rightarrow> nat" where
  "attempts tr = length (filter (\<lambda>e. case e of Attempt \<Rightarrow> True | _ \<Rightarrow> False) tr)"

section \<open>Strings and regular expressions\<close>

text \<open>
  \<^verbatim>\<open>s.startsWith(p)\<close>, and \<^verbatim>\<open>/p/.test(s)\<close> for a pattern \<open>p\<close> of literal characters:
  the regular expression is not anchored, so it looks for \<open>p\<close> anywhere in \<open>s\<close>.
\<close>

fun startsWith :: "string \<Rightarrow> string \<Rightarrow> bool" where
  "startsWith s [] = True"
| "startsWith [] (p # ps) = False"
| "startsWith (c # cs) (p # ps) = (c = p \<and> startsWith cs ps)"

fun has_substring :: "string \<Rightarrow> string \<Rightarrow> bool" where
  "has_substring [] p = (p = [])"
| "has_substring (c # cs) p = (startsWith (c # cs) p \<or> has_substring cs p)"

text \<open>\<^verbatim>\<open>/file:\/\/\//\<close> (lines 114, 158, 162, 192), \<^verbatim>\<open>/png/\<close> and \<^verbatim>\<open>/jpe?g/\<close> (lines 215, 219).\<close>

definition file_regex :: "string \<Rightarrow> bool" where
  "file_regex s = has_substring s ''file:///''"

definition png_regex :: "string \<Rightarrow> bool" where
  "png_regex s = has_substring s ''png''"

definition jpeg_regex :: "string \<Rightarrow> bool" where
  "jpeg_regex s = (has_substring s ''jpeg'' \<or> has_substring s ''jpg'')"

section \<open>getTopKClasses\<close>

text \<open>
  The scores are the numbers of \<^verbatim>\<open>logits.data()\<close>. The function only compares and
  copies them, so they are modelled as reals: every score but NaN.

  \<^verbatim>\<open>Array.prototype.sort\<close> with a comparator is a stable sort (ECMAScript 2019):
  an element stays behind the elements before it that the comparator does not put
  after it. \<open>array_sort\<close> is the stable insertion sort for a comparator \<open>cmp\<close>, where
  \<open>cmp a b \<le> 0\<close> keeps \<open>a\<close> before \<open>b\<close>.
\<close>

fun sort_insert :: "('a \<Rightarrow> 'a \<Rightarrow> real) \<Rightarrow> 'a \<Rightarrow> 'a list \<Rightarrow> 'a list" where
  "sort_insert cmp x [] = [x]"
| "sort_insert cmp x (y # ys) =
     (if cmp x y \<le> 0 then x # y # ys else y # sort_insert cmp x ys)"

definition array_sort :: "('a \<Rightarrow> 'a \<Rightarrow> real) \<Rightarrow> 'a list \<Rightarrow> 'a list" where
  "array_sort cmp xs = foldr (sort_insert cmp) xs []"

text \<open>An entry \<^verbatim>\<open>{ value, index }\<close> of \<^verbatim>\<open>valuesAndIndices\<close> is a pair.\<close>

type_synonym value_and_index = "real \<times> nat"

text \<open>Lines 70 to 72: one entry for each position of \<^verbatim>\<open>values\<close>.\<close>

definition valuesAndIndices :: "real list \<Rightarrow> value_and_index list" where
  "valuesAndIndices vals = zip vals [0..<length vals]"

text \<open>Lines 74 to 76: the comparator \<^verbatim>\<open>(a, b) => b.value - a.value\<close>.\<close>

definition by_value_desc :: "value_and_index \<Rightarrow> value_and_index \<Rightarrow> real" where
  "by_value_desc a b = fst b - fst a"

definition sorted_entries :: "real list \<Rightarrow> value_and_index list" where
  "sorted_entries vals = array_sort by_value_desc (valuesAndIndices vals)"

text \<open>
  The order the ranking is meant to have: the higher value first, and of two equal
  values the one with the lower index.
\<close>

definition ranks_before :: "value_and_index \<Rightarrow> value_and_index \<Rightarrow> bool" where
  "ranks_before a b = (fst b < fst a \<or> (fst a = fst b \<and> snd a < snd b))"

text \<open>
  An element of the result, \<^verbatim>\<open>{ class, score }\<close>. \<^verbatim>\<open>classes[i]\<close> with \<open>i\<close> out of
  range is \<^verbatim>\<open>undefined\<close> in JavaScript and raises nothing: the class is \<open>None\<close> then.
\<close>

record scored_class =
  className :: "string option"
  score :: real

definition lookup :: "'a list \<Rightarrow> nat \<Rightarrow> 'a option" where
  "lookup xs i = (if i < length xs then Some (xs ! i) else None)"

text \<open>
  Lines 66 and 78 to 84: \<^verbatim>\<open>topkValues\<close> and \<^verbatim>\<open>topkIndices\<close> are typed arrays of length
  \<^verbatim>\<open>topK\<close> filled from the first \<^verbatim>\<open>topK\<close> sorted entries; \<^verbatim>\<open>topK\<close> is at most the
  number of entries, so every read is in range. The values come from a
  \<^verbatim>\<open>Float32Array\<close> and the indices are array positions, so storing them changes
  nothing.
\<close>

definition topK :: "real list \<Rightarrow> string list \<Rightarrow> nat" where
  "topK vals classes = min (length classes) (length vals)"

definition topkValues :: "real list \<Rightarrow> string list \<Rightarrow> real list" where
  "topkValues vals classes =
     map (\<lambda>i. fst (sorted_entries vals ! i)) [0..<topK vals classes]"

definition topkIndices :: "real list \<Rightarrow> string list \<Rightarrow> nat list" where
  "topkIndices vals classes =
     map (\<lambda>i. snd (sorted_entries vals ! i)) [0..<topK vals classes]"

text \<open>Lines 86 to 95.\<close>

definition getTopKClasses :: "real list \<Rightarrow> string list \<Rightarrow> scored_class list" where
  "getTopKClasses vals classes =
     map (\<lambda>i. \<lparr> className = lookup classes (topkIndices vals classes ! i),
                score = topkValues vals classes ! i \<rparr>)
         [0..<length (topkIndices vals classes)]"

section \<open>Collaborators\<close>

text \<open>
  The libraries the program calls are not part of it. Each call is a field of the
  environment \<open>env\<close>; a call that can throw or reject returns \<open>Inl\<close> of the error's
  message.
\<close>

type_synonym bytes = "nat list"

record bitmap =
  bitmap_width :: nat
  bitmap_height :: nat
  bitmap_data :: "nat list"

text \<open>
  A tensor of the tensor runtime: its shape and its entries in row-major order. The
  runtime computes in 32-bit floating point; the entries are modelled as reals.
\<close>

record tensor =
  shape :: "nat list"
  entries :: "real list"

text \<open>
  A loaded model: \<^verbatim>\<open>model.inputs[0].shape[1]\<close>, \<^verbatim>\<open>[2]\<close> and \<^verbatim>\<open>[3]\<close>, the numbers that
  \<^verbatim>\<open>model.predict(batched)\<close> followed by \<^verbatim>\<open>logits.data()\<close> yields, and the property
  \<^verbatim>\<open>classes\<close> that \<^verbatim>\<open>loadModel\<close> adds to the object (\<open>None\<close>: the property is
  \<^verbatim>\<open>undefined\<close>).
\<close>

record layers_model =
  input_height :: nat
  input_width :: nat
  input_channels :: nat
  run_model :: "tensor \<Rightarrow> string + real list"
  model_classes :: "string list option"

text \<open>A \<^verbatim>\<open>fetch\<close> response: its Content-Type header (\<open>None\<close>: \<^verbatim>\<open>null\<close>) and its body.\<close>

record response =
  content_type_header :: "string option"
  response_buffer :: "string + bytes"
  response_text :: "string + string"

text \<open>The first argument of \<^verbatim>\<open>tf.loadLayersModel\<close>: a file system handler or a URL.\<close>

datatype model_source = FileSystem string | Url string

text \<open>The metadata as read: a buffer from \<^verbatim>\<open>fs.readFile\<close> or the text of a response.\<close>

datatype metadata_body = BufferBody bytes | TextBody string

text \<open>A readable stream: the bytes it will deliver, or a stream that has been read to its end.\<close>

datatype readable = Readable bytes | Ended

record env =
  isImageUrl :: "string \<Rightarrow> bool"
  fileURLToPath :: "string \<Rightarrow> string + string"
  path_join :: "string \<Rightarrow> string \<Rightarrow> string"
  fs_stat :: "string \<Rightarrow> string + bool"
  fs_readFile :: "string \<Rightarrow> string + bytes"
  fType_fromBuffer :: "bytes \<Rightarrow> string option"
  parseDataUrl :: "string \<Rightarrow> (string \<times> bytes) option"
  fetch :: "string \<Rightarrow> string + response"
  decodePNGFromStream :: "readable \<Rightarrow> string + bitmap"
  decodeJPEGFromStream :: "readable \<Rightarrow> string + bitmap"
  tf_fromPixels :: "bitmap option \<Rightarrow> string + tensor"
  tf_resizeNearestNeighbor :: "tensor \<Rightarrow> nat \<times> nat \<Rightarrow> string + tensor"
  tf_loadLayersModel :: "model_source \<Rightarrow> string + layers_model"
  JSON_parse_labels :: "metadata_body \<Rightarrow> string + string list option"

text \<open>
  \<open>fs_stat\<close> returns \<open>Inr True\<close> for a \<^verbatim>\<open>Stats\<close> object and \<open>Inr False\<close> for a falsy
  value; \<open>fType_fromBuffer\<close> returns the \<^verbatim>\<open>mime\<close> of its result, or \<open>None\<close> when the
  result is \<^verbatim>\<open>undefined\<close>; \<open>parseDataUrl\<close> returns the content type and the buffer of
  the parsed URL, or \<open>None\<close> when the library returns \<^verbatim>\<open>false\<close>;
  \<open>JSON_parse_labels\<close> is \<^verbatim>\<open>JSON.parse(body).labels\<close>.
\<close>

section \<open>predict\<close>

text \<open>
  The scalar arithmetic and the reshape of the tensor runtime, as its documentation
  describes them: \<^verbatim>\<open>sub\<close> and \<^verbatim>\<open>div\<close> with a scalar work on every entry, \<^verbatim>\<open>reshape\<close>
  keeps the entries and throws unless the new shape holds as many. \<^verbatim>\<open>toFloat\<close> changes
  the type of the entries only.
\<close>

definition toFloat :: "tensor \<Rightarrow> tensor" where
  "toFloat t = t"

definition tensor_sub :: "tensor \<Rightarrow> real \<Rightarrow> tensor" where
  "tensor_sub t c = t\<lparr> entries := map (\<lambda>x. x - c) (entries t) \<rparr>"

definition tensor_div :: "tensor \<Rightarrow> real \<Rightarrow> tensor" where
  "tensor_div t c = t\<lparr> entries := map (\<lambda>x. x / c) (entries t) \<rparr>"

definition tensor_reshape :: "tensor \<Rightarrow> nat list \<Rightarrow> string + tensor" where
  "tensor_reshape t s =
     (if prod_list s = length (entries t) then Inr (t\<lparr> shape := s \<rparr>)
      else Inl ''Size must match the product of shape'')"

text \<open>
  Lines 44 to 57 up to the call of \<^verbatim>\<open>model.predict\<close>: the tensor \<^verbatim>\<open>batched\<close>.
  \<^verbatim>\<open>tf.browser.fromPixels\<close> runs before the first read of \<^verbatim>\<open>model.inputs\<close>.
\<close>

definition preprocess :: "env \<Rightarrow> bitmap option \<Rightarrow> layers_model option \<Rightarrow> string + tensor" where
  "preprocess env imgElement model =
     (case tf_fromPixels env imgElement of
        Inl e \<Rightarrow> Inl e
      | Inr px \<Rightarrow>
          (case model of
             None \<Rightarrow> Inl ''TypeError: model is undefined''
           | Some m \<Rightarrow>
               (case tf_resizeNearestNeighbor env (toFloat px) (input_height m, input_width m) of
                  Inl e \<Rightarrow> Inl e
                | Inr img \<Rightarrow>
                    (let offset = 127.5;
                         normalized = tensor_div (tensor_sub img offset) offset
                     in tensor_reshape normalized
                          [1, input_height m, input_width m, input_channels m]))))"

text \<open>Lines 43 to 62.\<close>

definition predict :: "env \<Rightarrow> bitmap option \<Rightarrow> layers_model option \<Rightarrow> string + scored_class list" where
  "predict env imgElement model =
     (case preprocess env imgElement model of
        Inl e \<Rightarrow> Inl e
      | Inr batched \<Rightarrow>
          (case model of
             None \<Rightarrow> Inl ''TypeError: model is undefined''
           | Some m \<Rightarrow>
               (case run_model m batched of
                  Inl e \<Rightarrow> Inl e
                | Inr vals \<Rightarrow>
                    (case model_classes m of
                       None \<Rightarrow> Inl ''TypeError: classes is undefined''
                     | Some cs \<Rightarrow> Inr (getTopKClasses vals cs)))))"

section \<open>The class\<close>

text \<open>The fields of an instance that the methods read and write.\<close>

record machine =
  this_error :: "string option"
  this_model :: "layers_model option"

definition new_machine :: machine where
  "new_machine = \<lparr> this_error = None, this_model = None \<rparr>"

subsection \<open>loadModel and the constructor\<close>

text \<open>Lines 111 to 131: the source of the model and the body of its metadata.\<close>

definition load_sources :: "env \<Rightarrow> string \<Rightarrow> string + model_source \<times> metadata_body" where
  "load_sources env modelUrl =
     (if file_regex modelUrl then
        (case fileURLToPath env modelUrl of
           Inl e \<Rightarrow> Inl e
         | Inr modelPath \<Rightarrow>
             (case fileURLToPath env (modelUrl @ ''metadata.json'') of
                Inl e \<Rightarrow> Inl e
              | Inr metaDataPath \<Rightarrow>
                  (case fs_readFile env metaDataPath of
                     Inl e \<Rightarrow> Inl e
                   | Inr body \<Rightarrow>
                       Inr (FileSystem (path_join env modelPath ''model.json''),
                            BufferBody body))))
      else
        (case fetch env (modelUrl @ ''metadata.json'') of
           Inl e \<Rightarrow> Inl e
         | Inr resp \<Rightarrow>
             (case response_text resp of
                Inl e \<Rightarrow> Inl e
              | Inr body \<Rightarrow> Inr (Url (modelUrl @ ''model.json''), TextBody body))))"

text \<open>
  Lines 103 to 142: the instance once \<^verbatim>\<open>loadModel\<close> has settled. \<open>None\<close> is a
  \<^verbatim>\<open>modelUrl\<close> that is absent. The \<^verbatim>\<open>catch\<close> block writes to the console and to
  nothing else, so a load that throws leaves the fields as they were when it threw.
  A model as \<^verbatim>\<open>tf.loadLayersModel\<close> returns it has no property \<^verbatim>\<open>classes\<close>.
\<close>

definition loadModel :: "env \<Rightarrow> machine \<Rightarrow> string option \<Rightarrow> machine" where
  "loadModel env this modelUrl =
     (case modelUrl of
        None \<Rightarrow> this\<lparr> this_error := Some ''Missing model URL!'' \<rparr>
      | Some u \<Rightarrow>
          if u = [] then this\<lparr> this_error := Some ''Missing model URL!'' \<rparr>
          else
            (case load_sources env u of
               Inl e \<Rightarrow> this
             | Inr (modelURL, body) \<Rightarrow>
                 (case tf_loadLayersModel env modelURL of
                    Inl e \<Rightarrow> this
                  | Inr m \<Rightarrow>
                      (case JSON_parse_labels env body of
                         Inl e \<Rightarrow> this\<lparr> this_model := Some (m\<lparr> model_classes := None \<rparr>) \<rparr>
                       | Inr labels \<Rightarrow>
                           this\<lparr> this_model := Some (m\<lparr> model_classes := labels \<rparr>) \<rparr>))))"


subsection \<open>checkModel and retryOperation\<close>

text \<open>Lines 144 to 152.\<close>

definition checkModel :: "machine \<Rightarrow> 'cb \<Rightarrow> message_object + 'cb" where
  "checkModel this cb =
     (case this_model this of
        Some m \<Rightarrow> Inr cb
      | None \<Rightarrow> Inl (MessageObject ''Loading model''))"

text \<open>
  Lines 15 to 30. \<open>now\<close> is the time that has passed since the first call; the
  operation and the callback read the instance as it is at that time, and
  \<^verbatim>\<open>wait(delay)\<close> is the only step that takes time. \<^verbatim>\<open>resolve(cb())\<close> settles the
  promise the way the promise of \<^verbatim>\<open>cb()\<close> settles. \<open>times_left\<close> is the parameter
  \<^verbatim>\<open>times\<close>.
\<close>

function retryOperation ::
  "(nat \<Rightarrow> message_object + (nat \<Rightarrow> 'a run)) \<Rightarrow> nat \<Rightarrow> int \<Rightarrow> nat \<Rightarrow> 'a run" where
  "retryOperation operation delay times_left now =
     (case operation now of
        Inr cb \<Rightarrow> after [Attempt] (cb now)
      | Inl rejection \<Rightarrow>
          if times_left - 1 > 0
          then after [Attempt, Wait delay]
                 (retryOperation operation delay (times_left - 1) (now + delay))
          else ([Attempt], Inl (JString (message rejection))))"
  by pat_completeness auto
termination
  by (relation "measure (\<lambda>(operation, delay, times_left, now). nat times_left)") auto

declare retryOperation.simps [simp del]

subsection \<open>inference\<close>

text \<open>The branch that lines 184, 192 and 205 take for an image URL.\<close>

datatype locator = Embedded | LocalPath | Remote

definition locator_of :: "string \<Rightarrow> locator" where
  "locator_of imageUrl =
     (if startsWith imageUrl ''data:image/'' then Embedded
      else if file_regex imageUrl then LocalPath
      else Remote)"

text \<open>Lines 184 to 210: \<^verbatim>\<open>contentType\<close> and \<^verbatim>\<open>buffer\<close>, or the error thrown on the way.\<close>

definition resolve_image :: "env \<Rightarrow> string \<Rightarrow> event list \<times> (string + string option \<times> bytes)" where
  "resolve_image env imageUrl =
     (case locator_of imageUrl of
        Embedded \<Rightarrow>
          (case parseDataUrl env imageUrl of
             None \<Rightarrow> ([], Inl ''TypeError: data.toBuffer is not a function'')
           | Some (contentType, buffer) \<Rightarrow> ([], Inr (Some contentType, buffer)))
      | LocalPath \<Rightarrow>
          (case fileURLToPath env imageUrl of
             Inl e \<Rightarrow> ([], Inl e)
           | Inr imagePath \<Rightarrow>
               (case fs_readFile env imagePath of
                  Inl e \<Rightarrow> ([ReadFile imagePath], Inl e)
                | Inr buffer \<Rightarrow>
                    (case fType_fromBuffer env buffer of
                       None \<Rightarrow> ([ReadFile imagePath], Inl ''TypeError: contentTypeRaw is undefined'')
                     | Some mime \<Rightarrow> ([ReadFile imagePath], Inr (Some mime, buffer)))))
      | Remote \<Rightarrow>
          (case fetch env imageUrl of
             Inl e \<Rightarrow> ([Fetch imageUrl], Inl e)
           | Inr data \<Rightarrow>
               (case response_buffer data of
                  Inl e \<Rightarrow> ([Fetch imageUrl], Inl e)
                | Inr buffer \<Rightarrow> ([Fetch imageUrl], Inr (content_type_header data, buffer)))))"

text \<open>Lines 32 to 41.\<close>

definition bufferToStream :: "bytes \<Rightarrow> readable" where
  "bufferToStream binary = Readable binary"

text \<open>\<^verbatim>\<open>regex.test(x)\<close> turns \<open>x\<close> into a string first: \<^verbatim>\<open>null\<close> becomes \<^verbatim>\<open>"null"\<close>.\<close>

definition tested_string :: "string option \<Rightarrow> string" where
  "tested_string x = (case x of None \<Rightarrow> ''null'' | Some s \<Rightarrow> s)"

text \<open>
  Lines 212 to 221: \<^verbatim>\<open>imageBitmap\<close>, which stays \<^verbatim>\<open>undefined\<close> (\<open>None\<close>) when neither
  test succeeds. The two tests are two \<^verbatim>\<open>if\<close> statements, not an \<^verbatim>\<open>if\<close> and an
  \<^verbatim>\<open>else\<close>: when both succeed, the JPEG codec is given the stream that the PNG codec
  has read.
\<close>

definition decode_image :: "env \<Rightarrow> string option \<Rightarrow> bytes \<Rightarrow> event list \<times> (string + bitmap option)" where
  "decode_image env contentType buffer =
     (let stream = bufferToStream buffer in
      if png_regex (tested_string contentType) then
        (case decodePNGFromStream env stream of
           Inl e \<Rightarrow> ([DecodePNG], Inl e)
         | Inr png \<Rightarrow>
             if jpeg_regex (tested_string contentType) then
               (case decodeJPEGFromStream env Ended of
                  Inl e \<Rightarrow> ([DecodePNG, DecodeJPEG], Inl e)
                | Inr jpg \<Rightarrow> ([DecodePNG, DecodeJPEG], Inr (Some jpg)))
             else ([DecodePNG], Inr (Some png)))
      else if jpeg_regex (tested_string contentType) then
        (case decodeJPEGFromStream env stream of
           Inl e \<Rightarrow> ([DecodeJPEG], Inl e)
         | Inr jpg \<Rightarrow> ([DecodeJPEG], Inr (Some jpg)))
      else ([], Inr None))"

text \<open>
  Lines 177 to 229. The \<^verbatim>\<open>try\<close> block holds the whole body, and the \<^verbatim>\<open>catch\<close> block
  rejects with \<^verbatim>\<open>{ error }\<close> for whatever was thrown.
\<close>

definition inference :: "env \<Rightarrow> machine \<Rightarrow> string \<Rightarrow> scored_class list run" where
  "inference env this imageUrl =
     (case resolve_image env imageUrl of
        (tr1, Inl e) \<Rightarrow> (tr1, Inl (JErrorObject (JError e)))
      | (tr1, Inr (contentType, buffer)) \<Rightarrow>
          (case decode_image env contentType buffer of
             (tr2, Inl e) \<Rightarrow> (tr1 @ tr2, Inl (JErrorObject (JError e)))
           | (tr2, Inr imageBitmap) \<Rightarrow>
               (case predict env imageBitmap (this_model this) of
                  Inl e \<Rightarrow>
                    (tr1 @ tr2 @ [Predict (imageBitmap \<noteq> None)], Inl (JErrorObject (JError e)))
                | Inr predictions \<Rightarrow>
                    (tr1 @ tr2 @ [Predict (imageBitmap \<noteq> None)], Inr predictions))))"

subsection \<open>classify\<close>

text \<open>The test of line 158, negated: the image URL gets past the first \<^verbatim>\<open>if\<close>.\<close>

definition accepted :: "env \<Rightarrow> string \<Rightarrow> bool" where
  "accepted env imageUrl =
     (file_regex imageUrl \<or> startsWith imageUrl ''data:image/'' \<or> isImageUrl env imageUrl)"

text \<open>
  Lines 162 to 168: the rejection of the check of a local file, if any. The call is
  not inside a \<^verbatim>\<open>try\<close> block: what \<^verbatim>\<open>url.fileURLToPath\<close> throws or \<^verbatim>\<open>fs.stat\<close> rejects
  with is the rejection of \<^verbatim>\<open>classify\<close>, as it is.
\<close>

definition local_file_check :: "env \<Rightarrow> string \<Rightarrow> event list \<times> js_value option" where
  "local_file_check env imageUrl =
     (if file_regex imageUrl then
        (case fileURLToPath env imageUrl of
           Inl e \<Rightarrow> ([], Some (JError e))
         | Inr p \<Rightarrow>
             (case fs_stat env p of
                Inl e \<Rightarrow> ([Stat p], Some (JError e))
              | Inr stats \<Rightarrow>
                  if \<not> stats
                  then ([Stat p], Some (JErrorObject (JString ''Image file:// URL does not exist!'')))
                  else ([Stat p], None)))
      else ([], None))"

text \<open>\<^verbatim>\<open>if ( this.error )\<close>: a string is truthy unless it is empty.\<close>

definition truthy :: "string option \<Rightarrow> bool" where
  "truthy x = (case x of None \<Rightarrow> False | Some s \<Rightarrow> s \<noteq> [])"

text \<open>
  Lines 155 to 175. \<open>this t\<close> is the instance as it is \<open>t\<close> time units after the call:
  \<^verbatim>\<open>loadModel\<close> may still be running and write to it later.
\<close>

definition classify :: "env \<Rightarrow> (nat \<Rightarrow> machine) \<Rightarrow> string \<Rightarrow> scored_class list run" where
  "classify env this imageUrl =
     (if \<not> accepted env imageUrl
      then ([], Inl (JErrorObject (JString ''Image URL is not valid!'')))
      else
        (case local_file_check env imageUrl of
           (tr, Some rejection) \<Rightarrow> (tr, Inl rejection)
         | (tr, None) \<Rightarrow>
             if truthy (this_error (this 0))
             then (tr, Inl (JErrorObject (JString (the (this_error (this 0))))))
             else after tr
                    (retryOperation
                       (\<lambda>now. checkModel (this now) (\<lambda>t. inference env (this t) imageUrl))
                       1000 20 0)))"

section \<open>A test environment\<close>

text \<open>
  One environment for the examples: a file system with the single file
  \<^verbatim>\<open>/tmp/cat.png\<close>, a network that serves \<^verbatim>\<open>https://example.com/cat.png\<close>,
  \<^verbatim>\<open>https://example.com/anim.gif\<close> and a model under \<^verbatim>\<open>https://example.com/model/\<close>,
  codecs that decode every stream to one red pixel, and a tensor runtime that
  refuses an absent bitmap as TensorFlow.js does. \<^verbatim>\<open>url.fileURLToPath\<close> throws for a
  URL of another scheme than \<^verbatim>\<open>file:\<close>, and \<^verbatim>\<open>fs.stat\<close> rejects for a file that does
  not exist, as in Node.js.
\<close>

definition red_pixel :: bitmap where
  "red_pixel = \<lparr> bitmap_width = 1, bitmap_height = 1, bitmap_data = [255, 0, 0, 255] \<rparr>"

definition test_model :: layers_model where
  "test_model =
     \<lparr> input_height = 2, input_width = 2, input_channels = 3,
       run_model = (\<lambda>t. Inr [1/5, 4/5]),
       model_classes = None \<rparr>"

definition test_env :: env where
  "test_env =
     \<lparr> isImageUrl = (\<lambda>s. has_substring s ''.png'' \<or> has_substring s ''.gif''),
       fileURLToPath = (\<lambda>s. if startsWith s ''file://'' then Inr (drop 7 s)
                             else Inl ''TypeError: The URL must be of scheme file''),
       path_join = (\<lambda>a b. a @ ''/'' @ b),
       fs_stat = (\<lambda>p. if p = ''/tmp/cat.png'' then Inr True
                       else Inl ''ENOENT: no such file or directory''),
       fs_readFile = (\<lambda>p. if p = ''/tmp/cat.png'' then Inr [137, 80, 78, 71]
                           else Inl ''ENOENT: no such file or directory''),
       fType_fromBuffer = (\<lambda>b. if take 4 b = [137, 80, 78, 71] then Some ''image/png'' else None),
       parseDataUrl = (\<lambda>s. if startsWith s ''data:image/gif;base64,''
                            then Some (''image/gif'', [71, 73, 70]) else None),
       fetch = (\<lambda>u. if u = ''https://example.com/cat.png''
                     then Inr \<lparr> content_type_header = Some ''image/png'',
                                response_buffer = Inr [137, 80, 78, 71],
                                response_text = Inr [] \<rparr>
                     else if u = ''https://example.com/anim.gif''
                     then Inr \<lparr> content_type_header = Some ''image/gif'',
                                response_buffer = Inr [71, 73, 70],
                                response_text = Inr [] \<rparr>
                     else if u = ''https://example.com/model/metadata.json''
                     then Inr \<lparr> content_type_header = Some ''application/json'',
                                response_buffer = Inr [],
                                response_text = Inr ''{ labels: [a, b] }'' \<rparr>
                     else Inl ''FetchError: request failed''),
       decodePNGFromStream = (\<lambda>r. case r of Readable b \<Rightarrow> Inr red_pixel
                                            | Ended \<Rightarrow> Inl ''stream has ended''),
       decodeJPEGFromStream = (\<lambda>r. case r of Readable b \<Rightarrow> Inr red_pixel
                                             | Ended \<Rightarrow> Inl ''stream has ended''),
       tf_fromPixels = (\<lambda>b. case b of
                          None \<Rightarrow> Inl ''pixels passed to tf.browser.fromPixels() can not be null''
                        | Some bmp \<Rightarrow> Inr \<lparr> shape = [1, 1, 3], entries = [255, 0, 0] \<rparr>),
       tf_resizeNearestNeighbor =
         (\<lambda>t (h, w). Inr \<lparr> shape = [h, w, 3],
                           entries = concat (replicate (h * w) (take 3 (entries t))) \<rparr>),
       tf_loadLayersModel = (\<lambda>src. if src = Url ''https://example.com/model/model.json''
                                   then Inr test_model else Inl ''Error: request failed''),
       JSON_parse_labels = (\<lambda>body. Inr (Some [''a'', ''b''])) \<rparr>"

text \<open>The model once loaded, and an instance that holds it.\<close>

definition ready_machine :: machine where
  "ready_machine = loadModel test_env new_machine (Some ''https://example.com/model/'')"


section \<open>Properties of getTopKClasses\<close>

lemma set_sort_insert: "set (sort_insert cmp x ys) = insert x (set ys)"
  by (induction ys) auto

lemma length_sort_insert: "length (sort_insert cmp x ys) = Suc (length ys)"
  by (induction ys) auto

lemma sorted_sort_insert:
  "sorted_wrt ranks_before ys \<Longrightarrow> list_all (\<lambda>y. snd x < snd y) ys \<Longrightarrow>
   sorted_wrt ranks_before (sort_insert by_value_desc x ys)"
proof (induction ys)
  case Nil
  then show ?case by simp
next
  case (Cons y ys)
  show ?case
  proof (cases "by_value_desc x y \<le> 0")
    case True
    have "ranks_before x z" if "z \<in> set (y # ys)" for z
    proof -
      have "fst z \<le> fst y" using that Cons.prems(1) by (auto simp: ranks_before_def)
      moreover have "snd x < snd z" using that Cons.prems(2) by (auto simp: list_all_iff)
      ultimately show ?thesis using True by (auto simp: ranks_before_def by_value_desc_def)
    qed
    with True Cons.prems(1) show ?thesis by simp
  next
    case False
    then have "ranks_before y x" by (simp add: ranks_before_def by_value_desc_def)
    with False Cons show ?thesis by (auto simp: set_sort_insert)
  qed
qed

lemma array_sort_sorted:
  "sorted_wrt (\<lambda>a b. snd a < snd b) ps \<Longrightarrow>
   sorted_wrt ranks_before (array_sort by_value_desc ps)
   \<and> set (array_sort by_value_desc ps) = set ps
   \<and> length (array_sort by_value_desc ps) = length ps"
proof (induction ps)
  case Nil
  then show ?case by (simp add: array_sort_def)
next
  case (Cons p ps)
  let ?rest = "array_sort by_value_desc ps"
  have step: "array_sort by_value_desc (p # ps) = sort_insert by_value_desc p ?rest"
    by (simp add: array_sort_def)
  from Cons have rest: "sorted_wrt ranks_before ?rest" "set ?rest = set ps"
    "length ?rest = length ps"
    by simp_all
  from Cons.prems rest(2) have "list_all (\<lambda>y. snd p < snd y) ?rest"
    by (simp add: list_all_iff)
  with rest show ?case
    unfolding step by (simp add: sorted_sort_insert set_sort_insert length_sort_insert)
qed

lemma valuesAndIndices_increasing:
  "sorted_wrt (\<lambda>a b. snd a < snd b) (valuesAndIndices vals)"
proof -
  have "map snd (valuesAndIndices vals) = [0..<length vals]"
    by (simp add: valuesAndIndices_def)
  moreover have "sorted_wrt (<) [0..<length vals]"
    by (simp add: sorted_wrt_upt)
  ultimately have "sorted_wrt (<) (map snd (valuesAndIndices vals))" by simp
  then show ?thesis by (simp add: sorted_wrt_map)
qed

lemma sorted_entries_props:
  "sorted_wrt ranks_before (sorted_entries vals)"
  "set (sorted_entries vals) = set (valuesAndIndices vals)"
  "length (sorted_entries vals) = length vals"
  using array_sort_sorted [OF valuesAndIndices_increasing, of vals]
  by (simp_all add: sorted_entries_def valuesAndIndices_def)


lemma getTopKClasses_entries:
  "getTopKClasses vals classes =
     map (\<lambda>e. \<lparr> className = lookup classes (snd e), score = fst e \<rparr>)
         (take (topK vals classes) (sorted_entries vals))"
proof -
  have le: "topK vals classes \<le> length (sorted_entries vals)"
    by (simp add: topK_def sorted_entries_props(3))
  show ?thesis
    by (rule nth_equalityI)
       (use le in \<open>simp_all add: getTopKClasses_def topkIndices_def topkValues_def\<close>)
qed




lemma length_getTopKClasses: "length (getTopKClasses vals classes) = topK vals classes"
  by (simp add: getTopKClasses_def topkIndices_def)

lemma getTopKClasses_nth:
  assumes "i < topK vals classes"
  shows "getTopKClasses vals classes ! i =
    \<lparr> className = lookup classes (snd (sorted_entries vals ! i)),
      score = fst (sorted_entries vals ! i) \<rparr>"
  using assms by (simp add: getTopKClasses_def topkIndices_def topkValues_def)





text \<open>
  Claim C2, as amended. For every score vector and label list, \<open>getTopKClasses\<close>
  returns exactly \<open>k = min (length classes) (length vals)\<close> entries and raises
  nothing: entry \<open>i\<close> is made from the \<open>i\<close>-th entry of the sorted list, for every
  \<open>i < k\<close>, so no sorted entry before the \<open>k\<close>-th is skipped. The label is read only
  when the index is inside the label list; an entry whose index is not is emitted
  with no class name.
\<close>

theorem top_k_first_entries:
  "length (getTopKClasses vals classes) = min (length classes) (length vals)
   \<and> (\<forall>i. i < min (length classes) (length vals) \<longrightarrow>
        getTopKClasses vals classes ! i =
          \<lparr> className =
              (if snd (sorted_entries vals ! i) < length classes
               then Some (classes ! snd (sorted_entries vals ! i)) else None),
            score = fst (sorted_entries vals ! i) \<rparr>)"
  by (simp add: length_getTopKClasses getTopKClasses_nth topK_def lookup_def)

theorem top_k_first_entries_witness:
  "length (getTopKClasses [1/10, 1/5, 9/10] [''a'', ''b'']) = 2
   \<and> getTopKClasses [1/10, 1/5, 9/10] [''a'', ''b''] ! 1 =
       \<lparr> className = Some ''b'', score = 1/5 \<rparr>"
proof -
  have se: "sorted_entries [1/10, 1/5, 9/10] = [(9/10, 2), (1/5, 1), (1/10, 0)]"
    by (simp add: sorted_entries_def valuesAndIndices_def array_sort_def by_value_desc_def
        upt_rec)
  show ?thesis
    using top_k_first_entries [of "[1/10, 1/5, 9/10]" "[''a'', ''b'']"]
    by (simp add: se)
qed

text \<open>
  Claim C2 as stated fails: with three scores and two labels the highest score is at
  index 2, outside the label list. The entry is emitted, without a class name, and
  the labelled entry for index 0 is not.
\<close>

theorem top_k_emits_unlabelled:
  "getTopKClasses [1/10, 1/5, 9/10] [''a'', ''b''] =
     [\<lparr> className = None, score = 9/10 \<rparr>, \<lparr> className = Some ''b'', score = 1/5 \<rparr>]
   \<and> topkIndices [1/10, 1/5, 9/10] [''a'', ''b''] = [2, 1]"
  by (simp add: getTopKClasses_def topkIndices_def topkValues_def topK_def sorted_entries_def
      valuesAndIndices_def array_sort_def by_value_desc_def lookup_def upt_rec)

section \<open>Properties of retryOperation, inference and classify\<close>








lemma retry_exhausts:
  assumes "\<And>i. i < Suc n \<Longrightarrow> operation (now + i * delay) = Inl rejection"
    and "times_left = int (Suc n)"
  shows "retryOperation operation delay times_left now =
           (concat (replicate n [Attempt, Wait delay]) @ [Attempt],
            Inl (JString (message rejection)))"
  using assms
proof (induction n arbitrary: now times_left)
  case 0
  have "operation now = Inl rejection" using "0.prems"(1) [of 0] by simp
  with "0.prems"(2) show ?case by (subst retryOperation.simps) simp
next
  case (Suc n)
  have r: "operation now = Inl rejection" using Suc.prems(1) [of 0] by simp
  have later: "operation (now + delay + i * delay) = Inl rejection" if "i < Suc n" for i
    using Suc.prems(1) [of "Suc i"] that by (simp add: add.assoc)
  have "retryOperation operation delay (times_left - 1) (now + delay) =
          (concat (replicate n [Attempt, Wait delay]) @ [Attempt],
           Inl (JString (message rejection)))"
    using Suc.prems(2) by (intro Suc.IH later) simp_all
  with r Suc.prems(2) show ?case
    by (subst retryOperation.simps) (simp add: after_def)
qed





lemma local_file_check_quiet:
  "waits (fst (local_file_check env imageUrl)) = []"
  "attempts (fst (local_file_check env imageUrl)) = 0"
  by (auto simp: local_file_check_def waits_def attempts_def split: sum.splits)






lemma classify_invalid:
  "\<not> accepted env imageUrl \<Longrightarrow>
   classify env this imageUrl = ([], Inl (JErrorObject (JString ''Image URL is not valid!'')))"
  by (simp add: classify_def)

lemma classify_file_check_fails:
  "accepted env imageUrl \<Longrightarrow> local_file_check env imageUrl = (tr, Some r) \<Longrightarrow>
   classify env this imageUrl = (tr, Inl r)"
  by (simp add: classify_def)

lemma classify_stored_error:
  "accepted env imageUrl \<Longrightarrow> local_file_check env imageUrl = (tr, None) \<Longrightarrow>
   truthy (this_error (this 0)) \<Longrightarrow>
   classify env this imageUrl = (tr, Inl (JErrorObject (JString (the (this_error (this 0))))))"
  by (simp add: classify_def)

lemma classify_retries:
  "accepted env imageUrl \<Longrightarrow> local_file_check env imageUrl = (tr, None) \<Longrightarrow>
   \<not> truthy (this_error (this 0)) \<Longrightarrow>
   classify env this imageUrl =
     after tr (retryOperation
       (\<lambda>now. checkModel (this now) (\<lambda>t. inference env (this t) imageUrl)) 1000 20 0)"
  by (simp add: classify_def)

lemma classify_short_circuit:
  assumes "\<not> accepted env imageUrl \<or> snd (local_file_check env imageUrl) \<noteq> None
      \<or> truthy (this_error (this 0))"
  shows "\<exists>r. snd (classify env this imageUrl) = Inl r"
    and "waits (fst (classify env this imageUrl)) = []"
    and "attempts (fst (classify env this imageUrl)) = 0"
proof -
  obtain tr c where c: "local_file_check env imageUrl = (tr, c)"
    by (cases "local_file_check env imageUrl")
  have q: "waits tr = []" "attempts tr = 0"
    using local_file_check_quiet [of env imageUrl] c by simp_all
  show "\<exists>r. snd (classify env this imageUrl) = Inl r"
    using assms c by (cases c) (auto simp: classify_def)
  show "waits (fst (classify env this imageUrl)) = []"
    using assms c q by (cases c) (auto simp: classify_def waits_def)
  show "attempts (fst (classify env this imageUrl)) = 0"
    using assms c q by (cases c) (auto simp: classify_def attempts_def)
qed

section \<open>Waiting for the model\<close>

lemma test_loaded:
  "ready_machine = \<lparr> this_error = None,
      this_model = Some (test_model\<lparr> model_classes := Some [''a'', ''b''] \<rparr>) \<rparr>"
  by (simp add: ready_machine_def loadModel_def load_sources_def file_regex_def test_env_def
      new_machine_def)

lemma test_cat_file_checks:
  "accepted test_env ''file:///tmp/cat.png''"
  "local_file_check test_env ''file:///tmp/cat.png'' = ([Stat ''/tmp/cat.png''], None)"
  by (simp_all add: accepted_def local_file_check_def file_regex_def test_env_def)





section \<open>The checks before the retry loop\<close>

text \<open>
  Claim C9. \<open>classify\<close> validates the image URL, then checks a local file, then looks
  at the stored error, and only then enters the retry loop: a call with a URL that is
  not accepted is rejected with no event at all; a call whose check of a local file
  fails is rejected with that failure; a call on an instance with a stored error is
  rejected with it. Whenever the URL is not accepted, the check of a local file fails
  or an error is stored, the call is rejected without a single poll or wait, whatever
  \<^verbatim>\<open>this.model\<close> is at any time (so also while the model is loading).
\<close>

theorem checks_before_retry:
  "(\<not> accepted env imageUrl \<longrightarrow>
      classify env this imageUrl = ([], Inl (JErrorObject (JString ''Image URL is not valid!''))))
   \<and> (accepted env imageUrl \<and> snd (local_file_check env imageUrl) = Some r \<longrightarrow>
        classify env this imageUrl = (fst (local_file_check env imageUrl), Inl r))
   \<and> (accepted env imageUrl \<and> snd (local_file_check env imageUrl) = None
        \<and> truthy (this_error (this 0)) \<longrightarrow>
        classify env this imageUrl =
          (fst (local_file_check env imageUrl),
           Inl (JErrorObject (JString (the (this_error (this 0)))))))
   \<and> (\<not> accepted env imageUrl \<or> snd (local_file_check env imageUrl) \<noteq> None
        \<or> truthy (this_error (this 0)) \<longrightarrow>
        (\<exists>rejection. snd (classify env this imageUrl) = Inl rejection)
        \<and> waits (fst (classify env this imageUrl)) = []
        \<and> attempts (fst (classify env this imageUrl)) = 0)"
proof (intro conjI impI)
  assume "\<not> accepted env imageUrl"
  then show "classify env this imageUrl
      = ([], Inl (JErrorObject (JString ''Image URL is not valid!'')))"
    by (rule classify_invalid)
next
  assume "accepted env imageUrl \<and> snd (local_file_check env imageUrl) = Some r"
  then show "classify env this imageUrl = (fst (local_file_check env imageUrl), Inl r)"
    using classify_file_check_fails [of env imageUrl "fst (local_file_check env imageUrl)" r this]
    by (cases "local_file_check env imageUrl") simp
next
  assume "accepted env imageUrl \<and> snd (local_file_check env imageUrl) = None
        \<and> truthy (this_error (this 0))"
  then show "classify env this imageUrl =
          (fst (local_file_check env imageUrl),
           Inl (JErrorObject (JString (the (this_error (this 0))))))"
    using classify_stored_error [of env imageUrl "fst (local_file_check env imageUrl)" this]
    by (cases "local_file_check env imageUrl") simp
next
  assume a: "\<not> accepted env imageUrl \<or> snd (local_file_check env imageUrl) \<noteq> None
        \<or> truthy (this_error (this 0))"
  show "\<exists>rejection. snd (classify env this imageUrl) = Inl rejection"
    using a by (rule classify_short_circuit(1))
  show "waits (fst (classify env this imageUrl)) = []"
    using a by (rule classify_short_circuit(2))
  show "attempts (fst (classify env this imageUrl)) = 0"
    using a by (rule classify_short_circuit(3))
qed

lemma test_missing:
  "loadModel test_env new_machine None = \<lparr> this_error = Some ''Missing model URL!'', this_model = None \<rparr>"
  by (simp add: loadModel_def new_machine_def)

theorem checks_before_retry_witness:
  "classify test_env (\<lambda>t. new_machine) ''cat'' =
     ([], Inl (JErrorObject (JString ''Image URL is not valid!'')))
   \<and> classify test_env (\<lambda>t. new_machine) ''file:///tmp/dog.png'' =
       ([Stat ''/tmp/dog.png''], Inl (JError ''ENOENT: no such file or directory''))
   \<and> classify test_env (\<lambda>t. loadModel test_env new_machine None) ''file:///tmp/cat.png'' =
       ([Stat ''/tmp/cat.png''], Inl (JErrorObject (JString ''Missing model URL!'')))
   \<and> waits (fst (classify test_env (\<lambda>t. loadModel test_env new_machine None)
         ''file:///tmp/cat.png'')) = []"
proof -
  have invalid: "\<not> accepted test_env ''cat''"
    by (simp add: accepted_def file_regex_def test_env_def)
  have dog: "accepted test_env ''file:///tmp/dog.png''
      \<and> snd (local_file_check test_env ''file:///tmp/dog.png'')
          = Some (JError ''ENOENT: no such file or directory'')"
    by (simp add: accepted_def local_file_check_def file_regex_def test_env_def)
  have dog_trace: "fst (local_file_check test_env ''file:///tmp/dog.png'') = [Stat ''/tmp/dog.png'']"
    by (simp add: local_file_check_def file_regex_def test_env_def)
  have cat: "accepted test_env ''file:///tmp/cat.png''
      \<and> snd (local_file_check test_env ''file:///tmp/cat.png'') = None
      \<and> truthy (this_error ((\<lambda>t. loadModel test_env new_machine None) 0))"
    by (simp add: test_cat_file_checks test_missing truthy_def)
  have stored: "\<not> accepted test_env ''file:///tmp/cat.png''
      \<or> snd (local_file_check test_env ''file:///tmp/cat.png'') \<noteq> None
      \<or> truthy (this_error ((\<lambda>t. loadModel test_env new_machine None) 0))"
    using cat by simp
  note c = checks_before_retry [where env = test_env]
  have "classify test_env (\<lambda>t. new_machine) ''cat'' =
     ([], Inl (JErrorObject (JString ''Image URL is not valid!'')))"
    by (rule c [THEN conjunct1, THEN mp, OF invalid])
  moreover have "classify test_env (\<lambda>t. new_machine) ''file:///tmp/dog.png'' =
       ([Stat ''/tmp/dog.png''], Inl (JError ''ENOENT: no such file or directory''))"
    using c [THEN conjunct2, THEN conjunct1, THEN mp, OF dog, of "\<lambda>t. new_machine"]
    by (simp add: dog_trace)
  moreover have "classify test_env (\<lambda>t. loadModel test_env new_machine None) ''file:///tmp/cat.png'' =
       ([Stat ''/tmp/cat.png''], Inl (JErrorObject (JString ''Missing model URL!'')))"
    using c [where this = "\<lambda>t. loadModel test_env new_machine None"
        and imageUrl = "''file:///tmp/cat.png''",
        THEN conjunct2, THEN conjunct2, THEN conjunct1, THEN mp, OF cat]
    by (simp add: test_cat_file_checks test_missing)
  moreover have "waits (fst (classify test_env (\<lambda>t. loadModel test_env new_machine None)
         ''file:///tmp/cat.png'')) = []"
    using c [where this = "\<lambda>t. loadModel test_env new_machine None"
        and imageUrl = "''file:///tmp/cat.png''",
        THEN conjunct2, THEN conjunct2, THEN conjunct2, THEN mp, OF stored]
    by simp
  ultimately show ?thesis by simp
qed

text \<open>
  Claim C1, as amended. Once an error is stored on the instance (\<^verbatim>\<open>this.error\<close> is a
  non-empty string), every call of \<open>classify\<close> is rejected with no poll and no wait,
  whatever the retry budget is; the rejection is \<^verbatim>\<open>{ error: this.error }\<close> whenever
  the image URL is accepted and the check of a local file passes.
\<close>

theorem stored_error_short_circuit:
  assumes "this_error (this 0) = Some e" and "e \<noteq> []"
  shows "(\<exists>r. snd (classify env this imageUrl) = Inl r)
       \<and> waits (fst (classify env this imageUrl)) = []
       \<and> attempts (fst (classify env this imageUrl)) = 0
       \<and> (accepted env imageUrl \<and> snd (local_file_check env imageUrl) = None \<longrightarrow>
            snd (classify env this imageUrl) = Inl (JErrorObject (JString e)))"
proof -
  from assms have t: "truthy (this_error (this 0))" by (simp add: truthy_def)
  then have sc: "\<not> accepted env imageUrl \<or> snd (local_file_check env imageUrl) \<noteq> None
      \<or> truthy (this_error (this 0))" by simp
  have "snd (classify env this imageUrl) = Inl (JErrorObject (JString e))"
    if "accepted env imageUrl \<and> snd (local_file_check env imageUrl) = None"
    using classify_stored_error [of env imageUrl "fst (local_file_check env imageUrl)" this]
      that t assms(1)
    by (cases "local_file_check env imageUrl") simp
  with classify_short_circuit [where env = env and imageUrl = imageUrl and this = this, OF sc]
  show ?thesis by blast
qed

theorem stored_error_short_circuit_witness:
  "snd (classify test_env (\<lambda>t. \<lparr> this_error = Some ''Missing model URL!'', this_model = None \<rparr>)
          ''https://example.com/cat.png'')
     = Inl (JErrorObject (JString ''Missing model URL!''))
   \<and> waits (fst (classify test_env
         (\<lambda>t. \<lparr> this_error = Some ''Missing model URL!'', this_model = None \<rparr>)
         ''https://example.com/cat.png'')) = []
   \<and> attempts (fst (classify test_env
         (\<lambda>t. \<lparr> this_error = Some ''Missing model URL!'', this_model = None \<rparr>)
         ''https://example.com/cat.png'')) = 0"
proof -
  let ?inst = "\<lambda>t::nat. \<lparr> this_error = Some ''Missing model URL!'', this_model = None \<rparr>"
  have e: "this_error (?inst 0) = Some ''Missing model URL!''" "''Missing model URL!'' \<noteq> []"
    by simp_all
  have ok: "accepted test_env ''https://example.com/cat.png''
      \<and> snd (local_file_check test_env ''https://example.com/cat.png'') = None"
    by (simp add: accepted_def local_file_check_def file_regex_def test_env_def)
  note s = stored_error_short_circuit [where this = ?inst and env = test_env
      and imageUrl = "''https://example.com/cat.png''", OF e]
  from s ok show ?thesis by blast
qed

text \<open>
  Claim C1 as stated fails. A load that fails (here the fetch of the metadata is
  refused) stores no error, and \<open>classify\<close> on that instance polls twenty times,
  waits nineteen times and is rejected with \<^verbatim>\<open>"Loading model"\<close>. And on an instance
  with a stored error, a call for a local file that does not exist is rejected with
  the error of \<^verbatim>\<open>fs.stat\<close>, not with the stored one.
\<close>

theorem failed_load_is_retried:
  "this_error (loadModel test_env new_machine (Some ''https://example.org/nothing/'')) = None
   \<and> classify test_env
        (\<lambda>t. loadModel test_env new_machine (Some ''https://example.org/nothing/''))
        ''https://example.com/cat.png''
      = (concat (replicate 19 [Attempt, Wait 1000]) @ [Attempt], Inl (JString ''Loading model''))
   \<and> classify test_env (\<lambda>t. loadModel test_env new_machine None) ''file:///tmp/dog.png''
      = ([Stat ''/tmp/dog.png''], Inl (JError ''ENOENT: no such file or directory''))"
proof -
  have failed: "loadModel test_env new_machine (Some ''https://example.org/nothing/'') = new_machine"
    by (simp add: loadModel_def load_sources_def file_regex_def test_env_def)
  have ok: "accepted test_env ''https://example.com/cat.png''"
    "local_file_check test_env ''https://example.com/cat.png'' = ([], None)"
    by (simp_all add: accepted_def local_file_check_def file_regex_def test_env_def)
  have "retryOperation
      (\<lambda>now. checkModel new_machine (\<lambda>t. inference test_env new_machine ''https://example.com/cat.png''))
      1000 20 0
     = (concat (replicate 19 [Attempt, Wait 1000]) @ [Attempt],
        Inl (JString (message (MessageObject ''Loading model''))))"
    by (rule retry_exhausts) (simp_all add: checkModel_def new_machine_def)
  then have "classify test_env (\<lambda>t. new_machine) ''https://example.com/cat.png''
      = (concat (replicate 19 [Attempt, Wait 1000]) @ [Attempt], Inl (JString ''Loading model''))"
    using ok by (simp add: classify_retries truthy_def new_machine_def after_def)
  then have retried: "classify test_env
        (\<lambda>t. loadModel test_env new_machine (Some ''https://example.org/nothing/''))
        ''https://example.com/cat.png''
      = (concat (replicate 19 [Attempt, Wait 1000]) @ [Attempt], Inl (JString ''Loading model''))"
    unfolding failed .
  have unrecorded:
    "this_error (loadModel test_env new_machine (Some ''https://example.org/nothing/'')) = None"
    unfolding failed by (simp add: new_machine_def)
  have other: "classify test_env (\<lambda>t. loadModel test_env new_machine None) ''file:///tmp/dog.png''
      = ([Stat ''/tmp/dog.png''], Inl (JError ''ENOENT: no such file or directory''))"
    by (simp add: classify_def accepted_def local_file_check_def file_regex_def test_env_def)
  from unrecorded retried other show ?thesis by (intro conjI)
qed




section \<open>The shape of the rejections\<close>





section \<open>Content types and image URLs\<close>

text \<open>
  Claim C3, evaluated where the code departs from it. The response for
  \<^verbatim>\<open>https://example.com/anim.gif\<close> has the content type \<^verbatim>\<open>image/gif\<close>, which neither
  \<^verbatim>\<open>/png/\<close> nor \<^verbatim>\<open>/jpe?g/\<close> matches: no codec runs, \<^verbatim>\<open>imageBitmap\<close> stays
  \<^verbatim>\<open>undefined\<close>, and \<open>predict\<close> is called with it. The rejection is the error that
  the tensor runtime raises for the absent bitmap, not a decode error.
\<close>

theorem gif_reaches_predict_without_bitmap:
  "decode_image test_env (Some ''image/gif'') [71, 73, 70] = ([], Inr None)
   \<and> inference test_env ready_machine ''https://example.com/anim.gif''
      = ([Fetch ''https://example.com/anim.gif'', Predict False],
         Inl (JErrorObject
               (JError ''pixels passed to tf.browser.fromPixels() can not be null'')))
   \<and> classify test_env (\<lambda>t. ready_machine) ''https://example.com/anim.gif''
      = ([Attempt, Fetch ''https://example.com/anim.gif'', Predict False],
         Inl (JErrorObject
               (JError ''pixels passed to tf.browser.fromPixels() can not be null'')))"
proof -
  have d: "decode_image test_env (Some ''image/gif'') [71, 73, 70] = ([], Inr None)"
    by (simp add: decode_image_def tested_string_def png_regex_def jpeg_regex_def)
  have i: "inference test_env ready_machine ''https://example.com/anim.gif''
      = ([Fetch ''https://example.com/anim.gif'', Predict False],
         Inl (JErrorObject
               (JError ''pixels passed to tf.browser.fromPixels() can not be null'')))"
    by code_simp
  have ok: "accepted test_env ''https://example.com/anim.gif''"
    "local_file_check test_env ''https://example.com/anim.gif'' = ([], None)"
    "\<not> truthy (this_error ((\<lambda>t. ready_machine) 0))"
    by (simp_all add: accepted_def local_file_check_def file_regex_def test_env_def
        test_loaded truthy_def)
  have "retryOperation (\<lambda>now. checkModel ((\<lambda>t. ready_machine) now)
          (\<lambda>t. inference test_env ((\<lambda>t. ready_machine) t) ''https://example.com/anim.gif''))
        1000 20 0
      = after [Attempt] (inference test_env ready_machine ''https://example.com/anim.gif'')"
    by (subst retryOperation.simps) (simp add: checkModel_def test_loaded)
  then have "classify test_env (\<lambda>t. ready_machine) ''https://example.com/anim.gif''
      = after [Attempt] (inference test_env ready_machine ''https://example.com/anim.gif'')"
    using classify_retries [OF ok] by (simp add: after_def)
  with d i show ?thesis by (simp add: after_def)
qed

text \<open>
  Claim C4, evaluated where the code departs from it. The image URL starts with
  \<^verbatim>\<open>data:image/\<close> and also holds \<^verbatim>\<open>file:///\<close>, which the unanchored regular
  expression finds. \<open>inference\<close> would take it as an embedded image, but \<open>classify\<close>
  first runs the check of a local file on it, and the call is rejected with the
  error that \<^verbatim>\<open>url.fileURLToPath\<close> throws for a URL that is not a file URL.
\<close>

theorem data_url_is_checked_as_local_file:
  "startsWith ''data:image/svg+xml,<svg><!-- file:///tmp/cat.png --></svg>'' ''data:image/''
   \<and> file_regex ''data:image/svg+xml,<svg><!-- file:///tmp/cat.png --></svg>''
   \<and> locator_of ''data:image/svg+xml,<svg><!-- file:///tmp/cat.png --></svg>'' = Embedded
   \<and> local_file_check test_env ''data:image/svg+xml,<svg><!-- file:///tmp/cat.png --></svg>''
       = ([], Some (JError ''TypeError: The URL must be of scheme file''))
   \<and> classify test_env (\<lambda>t. ready_machine)
         ''data:image/svg+xml,<svg><!-- file:///tmp/cat.png --></svg>''
       = ([], Inl (JError ''TypeError: The URL must be of scheme file''))"
  by (simp add: classify_def accepted_def local_file_check_def locator_of_def file_regex_def
      test_env_def)

section \<open>The tensor given to the model\<close>




end
